theory Spec2Isabelle
  imports Complex_Main "HOL-Library.Word"
begin

section \<open>Data model of the scene manager\<close>

text \<open>
  The development embeds \<^verbatim>\<open>SceneManager.cpp\<close>: the texture table, the material table
  and the helpers that push uniforms to the shader. Single-precision values are only
  stored and passed on by the functions modelled here, so their type is a parameter
  \<open>'f\<close>; the 4x4 matrices built by the glm library are a second parameter \<open>'m\<close>.
\<close>

type_synonym GLuint = "32 word"

type_synonym 'f vec3 = "'f \<times> 'f \<times> 'f"

text \<open>
  Modelled from the spec: the header \<^verbatim>\<open>SceneManager.h\<close> with the declarations of
  \<^verbatim>\<open>TEXTURE_INFO\<close>, \<^verbatim>\<open>OBJECT_MATERIAL\<close> and the members of the class is not among the
  sources. A texture entry is a numeric handle and a string tag; a material entry is a
  tag with ambient colour and strength, diffuse colour, specular colour and shininess
  (the fields that \<^verbatim>\<open>FindMaterial\<close> copies).
\<close>

record TEXTURE_INFO =
  ID :: GLuint
  tag :: string

record 'f OBJECT_MATERIAL =
  ambientColor :: "'f vec3"
  ambientStrength :: 'f
  diffuseColor :: "'f vec3"
  specularColor :: "'f vec3"
  shininess :: 'f
  tag :: string

text \<open>
  Modelled from the spec: the capacity of the texture table, bound by the available
  texture units, is 16 (the comments of \<^verbatim>\<open>BindGLTextures\<close> and \<^verbatim>\<open>LoadSceneTextures\<close>
  give the same number).
\<close>

definition MAX_TEXTURES :: int where
  "MAX_TEXTURES = 16"

text \<open>
  Undefined behaviour of the C++ code is a value of the model: an access outside the
  texture array and a call through the null shader pointer.
\<close>

datatype fault = OutOfBounds | NullPointerDereference

definition fbind :: "fault + 'a \<Rightarrow> ('a \<Rightarrow> fault + 'b) \<Rightarrow> fault + 'b" where
  "fbind r k = (case r of Inl e \<Rightarrow> Inl e | Inr x \<Rightarrow> k x)"

subsection \<open>The graphics context\<close>

text \<open>
  Modelled from the spec: the boundary to the graphics context (texture creation, binding
  and deletion calls, mipmap generation). The context is the sequence of calls issued to
  it; \<^verbatim>\<open>glGenTextures\<close> hands out the next name of a supply that the context owns.
\<close>

datatype gl_pname =
  GL_TEXTURE_WRAP_S | GL_TEXTURE_WRAP_T | GL_TEXTURE_MIN_FILTER | GL_TEXTURE_MAG_FILTER

datatype gl_pvalue = GL_REPEAT | GL_LINEAR

datatype gl_format = GL_RGB8 | GL_RGBA8

datatype gl_call =
  GenTextures GLuint
| DeleteTextures GLuint
| BindTexture GLuint
| TexParameteri gl_pname gl_pvalue
| TexImage2D gl_format int int
| GenerateMipmap

record gl_context =
  gl_calls :: "gl_call list"
  gl_names :: "nat \<Rightarrow> GLuint"
  gl_generated :: nat

definition gl_issue :: "gl_call \<Rightarrow> gl_context \<Rightarrow> gl_context" where
  "gl_issue c g = g\<lparr>gl_calls := gl_calls g @ [c]\<rparr>"

definition glGenTextures :: "gl_context \<Rightarrow> GLuint \<times> gl_context" where
  "glGenTextures g =
     (let name = gl_names g (gl_generated g)
      in (name, g\<lparr>gl_calls := gl_calls g @ [GenTextures name],
                   gl_generated := Suc (gl_generated g)\<rparr>))"

subsection \<open>The shader-uniform interface\<close>

text \<open>
  Modelled from the spec: the shader manager is a set of named-uniform setters for
  scalars, vectors, matrices and sampler bindings. Its state is the sequence of uniform
  updates it has received; the value of a uniform is the one of its latest update.
\<close>

datatype ('f, 'm) uniform =
  IntValue int
| FloatValue 'f
| Vec2Value 'f 'f
| Vec3Value "'f vec3"
| Vec4Value 'f 'f 'f 'f
| Mat4Value 'm
| Sampler2DValue int

record ('f, 'm) ShaderManager =
  updates :: "(string \<times> ('f, 'm) uniform) list"

definition uniform_value ::
  "('f, 'm) ShaderManager \<Rightarrow> string \<Rightarrow> ('f, 'm) uniform option" where
  "uniform_value sm name = map_of (rev (updates sm)) name"

subsection \<open>The image loader and the console\<close>

text \<open>
  Modelled from the spec: \<^verbatim>\<open>stbi_load\<close> reads an image file and gives its width, height
  and channel count, or fails. The file system is a function from file names to load
  results.
\<close>

record stb_image =
  width :: int
  height :: int
  colorChannels :: int

datatype console_line =
  SuccessfullyLoaded string int int int
| NotImplemented int
| CouldNotLoad string

subsection \<open>The scene manager\<close>

record ('f, 'm) SceneManager =
  m_pShaderManager :: "('f, 'm) ShaderManager option"
  m_textureIDs :: "nat \<Rightarrow> TEXTURE_INFO"
  m_loadedTextures :: int
  m_objectMaterials :: "'f OBJECT_MATERIAL list"
  gl :: gl_context
  cout :: "console_line list"

definition g_ModelName :: string where "g_ModelName = ''model''"
definition g_ColorValueName :: string where "g_ColorValueName = ''objectColor''"
definition g_TextureValueName :: string where "g_TextureValueName = ''objectTexture''"
definition g_UseTextureName :: string where "g_UseTextureName = ''bUseTexture''"

section \<open>The texture table\<close>

text \<open>
  The table is the C array \<^verbatim>\<open>m_textureIDs\<close> with its fill count \<^verbatim>\<open>m_loadedTextures\<close>.
  The array has \<open>MAX_TEXTURES\<close> elements; reading or writing any other index is undefined
  behaviour in C++ and the fault \<open>OutOfBounds\<close> here.
\<close>

definition texture_read :: "(nat \<Rightarrow> TEXTURE_INFO) \<Rightarrow> int \<Rightarrow> fault + TEXTURE_INFO" where
  "texture_read a i =
     (if 0 \<le> i \<and> i < MAX_TEXTURES then Inr (a (nat i)) else Inl OutOfBounds)"

definition texture_write ::
  "(nat \<Rightarrow> TEXTURE_INFO) \<Rightarrow> int \<Rightarrow> (TEXTURE_INFO \<Rightarrow> TEXTURE_INFO)
     \<Rightarrow> fault + (nat \<Rightarrow> TEXTURE_INFO)" where
  "texture_write a i upd =
     (if 0 \<le> i \<and> i < MAX_TEXTURES then Inr (a(nat i := upd (a (nat i))))
      else Inl OutOfBounds)"

text \<open>
  The end of \<^verbatim>\<open>CreateGLTexture\<close> after the upload: mipmaps, unbinding, then the entry is
  written at index \<^verbatim>\<open>m_loadedTextures\<close>, the count is incremented and the result is
  \<^verbatim>\<open>true\<close>. There is no comparison of the count with the capacity.
\<close>

definition register_texture ::
  "GLuint \<Rightarrow> string \<Rightarrow> ('f, 'm) SceneManager \<Rightarrow> fault + (bool \<times> ('f, 'm) SceneManager)" where
  "register_texture textureID t s =
     (let g = gl_issue (BindTexture 0) (gl_issue GenerateMipmap (gl s))
      in fbind (texture_write (m_textureIDs s) (m_loadedTextures s)
                  (\<lambda>e. e\<lparr>ID := textureID, TEXTURE_INFO.tag := t\<rparr>))
           (\<lambda>a. Inr (True, s\<lparr>gl := g, m_textureIDs := a,
                               m_loadedTextures := m_loadedTextures s + 1\<rparr>)))"

text \<open>
  \<^verbatim>\<open>CreateGLTexture\<close>. The calls \<^verbatim>\<open>stbi_set_flip_vertically_on_load\<close> and
  \<^verbatim>\<open>stbi_image_free\<close> act on the pixel data only, which the model does not carry. On
  an unsupported channel count the function returns after \<^verbatim>\<open>glGenTextures\<close>, the binding
  and the four parameter calls, before anything is written to the table.
\<close>

definition CreateGLTexture ::
  "(string \<Rightarrow> stb_image option) \<Rightarrow> string \<Rightarrow> string \<Rightarrow> ('f, 'm) SceneManager
     \<Rightarrow> fault + (bool \<times> ('f, 'm) SceneManager)" where
  "CreateGLTexture stbi_load filename t s =
     (case stbi_load filename of
        Some img \<Rightarrow>
          (let s1 = s\<lparr>cout := cout s @ [SuccessfullyLoaded filename (width img)
                                          (height img) (colorChannels img)]\<rparr>;
               (textureID, g1) = glGenTextures (gl s1);
               g2 = gl_issue (BindTexture textureID) g1;
               g3 = gl_issue (TexParameteri GL_TEXTURE_WRAP_S GL_REPEAT) g2;
               g4 = gl_issue (TexParameteri GL_TEXTURE_WRAP_T GL_REPEAT) g3;
               g5 = gl_issue (TexParameteri GL_TEXTURE_MIN_FILTER GL_LINEAR) g4;
               g6 = gl_issue (TexParameteri GL_TEXTURE_MAG_FILTER GL_LINEAR) g5
           in if colorChannels img = 3 then
                register_texture textureID t
                  (s1\<lparr>gl := gl_issue (TexImage2D GL_RGB8 (width img) (height img)) g6\<rparr>)
              else if colorChannels img = 4 then
                register_texture textureID t
                  (s1\<lparr>gl := gl_issue (TexImage2D GL_RGBA8 (width img) (height img)) g6\<rparr>)
              else
                Inr (False, s1\<lparr>gl := g6,
                                cout := cout s1 @ [NotImplemented (colorChannels img)]\<rparr>))
      | None \<Rightarrow> Inr (False, s\<lparr>cout := cout s @ [CouldNotLoad filename]\<rparr>))"

text \<open>
  \<^verbatim>\<open>DestroyGLTextures\<close>: for every loaded entry, \<^verbatim>\<open>glGenTextures(1, &m_textureIDs[i].ID)\<close>.
\<close>

function DestroyGLTextures_loop ::
  "('f, 'm) SceneManager \<Rightarrow> int \<Rightarrow> fault + ('f, 'm) SceneManager" where
  "DestroyGLTextures_loop s i =
     (if i < m_loadedTextures s then
        (case glGenTextures (gl s) of (name, g) \<Rightarrow>
           (case texture_write (m_textureIDs s) i (\<lambda>e. e\<lparr>ID := name\<rparr>) of
              Inl e \<Rightarrow> Inl e
            | Inr a \<Rightarrow> DestroyGLTextures_loop (s\<lparr>gl := g, m_textureIDs := a\<rparr>) (i + 1)))
      else Inr s)"
  by pat_completeness auto
termination
  by (relation "measure (\<lambda>(s, i). nat (m_loadedTextures s - i))") auto

declare DestroyGLTextures_loop.simps [simp del]

definition DestroyGLTextures :: "('f, 'm) SceneManager \<Rightarrow> fault + ('f, 'm) SceneManager" where
  "DestroyGLTextures s = DestroyGLTextures_loop s 0"

text \<open>
  \<^verbatim>\<open>FindTextureID\<close> and \<^verbatim>\<open>FindTextureSlot\<close>: linear scans over the loaded entries. The
  result variable starts at \<open>-1\<close>. \<^verbatim>\<open>FindTextureID\<close> stores the unsigned handle in an
  \<^verbatim>\<open>int\<close>, which reads the 32 bits as two's complement.
\<close>

function FindTextureID_loop ::
  "(nat \<Rightarrow> TEXTURE_INFO) \<Rightarrow> int \<Rightarrow> string \<Rightarrow> int \<Rightarrow> bool \<Rightarrow> int \<Rightarrow> fault + int" where
  "FindTextureID_loop a n t index bFound textureID =
     (if index < n \<and> \<not> bFound then
        (case texture_read a index of
           Inl e \<Rightarrow> Inl e
         | Inr entry \<Rightarrow>
             if TEXTURE_INFO.tag entry = t then
               FindTextureID_loop a n t index True (sint (ID entry))
             else FindTextureID_loop a n t (index + 1) bFound textureID)
      else Inr textureID)"
  by pat_completeness auto
termination
  by (relation "measure (\<lambda>(a, n, t, index, bFound, textureID).
        2 * nat (n - index) + (if bFound then 0 else 1))") auto

declare FindTextureID_loop.simps [simp del]

definition FindTextureID :: "('f, 'm) SceneManager \<Rightarrow> string \<Rightarrow> fault + int" where
  "FindTextureID s t =
     FindTextureID_loop (m_textureIDs s) (m_loadedTextures s) t 0 False (- 1)"

function FindTextureSlot_loop ::
  "(nat \<Rightarrow> TEXTURE_INFO) \<Rightarrow> int \<Rightarrow> string \<Rightarrow> int \<Rightarrow> bool \<Rightarrow> int \<Rightarrow> fault + int" where
  "FindTextureSlot_loop a n t index bFound textureSlot =
     (if index < n \<and> \<not> bFound then
        (case texture_read a index of
           Inl e \<Rightarrow> Inl e
         | Inr entry \<Rightarrow>
             if TEXTURE_INFO.tag entry = t then
               FindTextureSlot_loop a n t index True index
             else FindTextureSlot_loop a n t (index + 1) bFound textureSlot)
      else Inr textureSlot)"
  by pat_completeness auto
termination
  by (relation "measure (\<lambda>(a, n, t, index, bFound, textureSlot).
        2 * nat (n - index) + (if bFound then 0 else 1))") auto

declare FindTextureSlot_loop.simps [simp del]

definition FindTextureSlot :: "('f, 'm) SceneManager \<Rightarrow> string \<Rightarrow> fault + int" where
  "FindTextureSlot s t =
     FindTextureSlot_loop (m_textureIDs s) (m_loadedTextures s) t 0 False (- 1)"

text \<open>
  The tags of the loaded entries, slot 0 first, and a run of registrations in which
  every call returned \<^verbatim>\<open>true\<close>. These two are vocabulary for the statements below, not
  functions of the source.
\<close>

definition loaded_tags :: "('f, 'm) SceneManager \<Rightarrow> string list" where
  "loaded_tags s =
     map (\<lambda>i. TEXTURE_INFO.tag (m_textureIDs s i)) [0 ..< nat (m_loadedTextures s)]"

fun register_all ::
  "(string \<Rightarrow> stb_image option) \<Rightarrow> (string \<times> string) list \<Rightarrow> ('f, 'm) SceneManager
     \<Rightarrow> ('f, 'm) SceneManager option" where
  "register_all stbi_load [] s = Some s"
| "register_all stbi_load ((filename, t) # rest) s =
     (case CreateGLTexture stbi_load filename t s of
        Inr (True, s') \<Rightarrow> register_all stbi_load rest s'
      | _ \<Rightarrow> None)"

section \<open>The material table\<close>

text \<open>
  \<^verbatim>\<open>FindMaterial\<close>: the loop runs while \<^verbatim>\<open>index < size\<close> and nothing was found; a match
  copies five fields into the caller's structure (not the tag). The function returns
  \<^verbatim>\<open>false\<close> before the loop when the table is empty and \<^verbatim>\<open>true\<close> after the loop.
  The index never leaves the range from 0 to the size of the vector, so the comparison of
  the \<^verbatim>\<open>int\<close> index with the unsigned size is the comparison of the numbers.
\<close>

function FindMaterial_loop ::
  "'f OBJECT_MATERIAL list \<Rightarrow> string \<Rightarrow> int \<Rightarrow> bool \<Rightarrow> 'f OBJECT_MATERIAL
     \<Rightarrow> int \<times> bool \<times> 'f OBJECT_MATERIAL" where
  "FindMaterial_loop mats t index bFound material =
     (if index < int (length mats) \<and> \<not> bFound then
        (if tag (mats ! nat index) = t then
           FindMaterial_loop mats t index True
             (material\<lparr>ambientColor := ambientColor (mats ! nat index),
                       ambientStrength := ambientStrength (mats ! nat index),
                       diffuseColor := diffuseColor (mats ! nat index),
                       specularColor := specularColor (mats ! nat index),
                       shininess := shininess (mats ! nat index)\<rparr>)
         else FindMaterial_loop mats t (index + 1) bFound material)
      else (index, bFound, material))"
  by pat_completeness auto
termination
  by (relation "measure (\<lambda>(mats, t, index, bFound, material).
        2 * nat (int (length mats) - index) + (if bFound then 0 else 1))") auto

declare FindMaterial_loop.simps [simp del]

definition FindMaterial ::
  "('f, 'm) SceneManager \<Rightarrow> string \<Rightarrow> 'f OBJECT_MATERIAL \<Rightarrow> bool \<times> 'f OBJECT_MATERIAL" where
  "FindMaterial s t material =
     (if length (m_objectMaterials s) = 0 then (False, material)
      else (case FindMaterial_loop (m_objectMaterials s) t 0 False material of
              (index, bFound, material') \<Rightarrow> (True, material')))"

section \<open>The uniform propagation helpers\<close>

text \<open>
  Every setter is called through the pointer \<^verbatim>\<open>m_pShaderManager\<close>; calling through the
  null pointer is the fault \<open>NullPointerDereference\<close>.
\<close>

definition shader_update ::
  "string \<Rightarrow> ('f, 'm) uniform \<Rightarrow> ('f, 'm) SceneManager \<Rightarrow> fault + ('f, 'm) SceneManager" where
  "shader_update name v s =
     (case m_pShaderManager s of
        None \<Rightarrow> Inl NullPointerDereference
      | Some sm \<Rightarrow>
          Inr (s\<lparr>m_pShaderManager := Some (sm\<lparr>updates := updates sm @ [(name, v)]\<rparr>)\<rparr>))"

definition setIntValue ::
  "string \<Rightarrow> int \<Rightarrow> ('f, 'm) SceneManager \<Rightarrow> fault + ('f, 'm) SceneManager" where
  "setIntValue name v = shader_update name (IntValue v)"

definition setFloatValue ::
  "string \<Rightarrow> 'f \<Rightarrow> ('f, 'm) SceneManager \<Rightarrow> fault + ('f, 'm) SceneManager" where
  "setFloatValue name v = shader_update name (FloatValue v)"

definition setVec2Value ::
  "string \<Rightarrow> 'f \<times> 'f \<Rightarrow> ('f, 'm) SceneManager \<Rightarrow> fault + ('f, 'm) SceneManager" where
  "setVec2Value name v = shader_update name (Vec2Value (fst v) (snd v))"

definition setVec3Value ::
  "string \<Rightarrow> 'f vec3 \<Rightarrow> ('f, 'm) SceneManager \<Rightarrow> fault + ('f, 'm) SceneManager" where
  "setVec3Value name v = shader_update name (Vec3Value v)"

definition setVec4Value ::
  "string \<Rightarrow> 'f \<times> 'f \<times> 'f \<times> 'f \<Rightarrow> ('f, 'm) SceneManager
     \<Rightarrow> fault + ('f, 'm) SceneManager" where
  "setVec4Value name v =
     (case v of (r, g, b, a) \<Rightarrow> shader_update name (Vec4Value r g b a))"

definition setMat4Value ::
  "string \<Rightarrow> 'm \<Rightarrow> ('f, 'm) SceneManager \<Rightarrow> fault + ('f, 'm) SceneManager" where
  "setMat4Value name v = shader_update name (Mat4Value v)"

definition setSampler2DValue ::
  "string \<Rightarrow> int \<Rightarrow> ('f, 'm) SceneManager \<Rightarrow> fault + ('f, 'm) SceneManager" where
  "setSampler2DValue name v = shader_update name (Sampler2DValue v)"

text \<open>
  The glm library is outside the repository. \<^verbatim>\<open>SetTransformations\<close> takes its operations
  as a parameter: the three matrix constructors, the conversion to radians, the matrix
  product and the constants \<^verbatim>\<open>0.0f\<close> and \<^verbatim>\<open>1.0f\<close> of the rotation axes.
\<close>

record ('f, 'm) glm =
  glm_scale :: "'f vec3 \<Rightarrow> 'm"
  glm_rotate :: "'f \<Rightarrow> 'f vec3 \<Rightarrow> 'm"
  glm_translate :: "'f vec3 \<Rightarrow> 'm"
  glm_radians :: "'f \<Rightarrow> 'f"
  glm_times :: "'m \<Rightarrow> 'm \<Rightarrow> 'm"
  glm_0f :: 'f
  glm_1f :: 'f

definition SetTransformations ::
  "('f, 'm) glm \<Rightarrow> 'f vec3 \<Rightarrow> 'f \<Rightarrow> 'f \<Rightarrow> 'f \<Rightarrow> 'f vec3 \<Rightarrow> ('f, 'm) SceneManager
     \<Rightarrow> fault + ('f, 'm) SceneManager" where
  "SetTransformations L scaleXYZ XrotationDegrees YrotationDegrees ZrotationDegrees
     positionXYZ s =
     (let scale = glm_scale L scaleXYZ;
          rotationX = glm_rotate L (glm_radians L XrotationDegrees)
                        (glm_1f L, glm_0f L, glm_0f L);
          rotationY = glm_rotate L (glm_radians L YrotationDegrees)
                        (glm_0f L, glm_1f L, glm_0f L);
          rotationZ = glm_rotate L (glm_radians L ZrotationDegrees)
                        (glm_0f L, glm_0f L, glm_1f L);
          translation = glm_translate L positionXYZ;
          modelView =
            glm_times L (glm_times L (glm_times L (glm_times L translation rotationZ)
              rotationY) rotationX) scale
      in if m_pShaderManager s \<noteq> None then setMat4Value g_ModelName modelView s
         else Inr s)"

definition SetShaderColor ::
  "'f \<Rightarrow> 'f \<Rightarrow> 'f \<Rightarrow> 'f \<Rightarrow> ('f, 'm) SceneManager \<Rightarrow> fault + ('f, 'm) SceneManager" where
  "SetShaderColor redColorValue greenColorValue blueColorValue alphaValue s =
     (let currentColor = (redColorValue, greenColorValue, blueColorValue, alphaValue)
      in if m_pShaderManager s \<noteq> None then
           fbind (setIntValue g_UseTextureName 0 s)
             (setVec4Value g_ColorValueName currentColor)
         else Inr s)"

definition SetShaderTexture ::
  "string \<Rightarrow> ('f, 'm) SceneManager \<Rightarrow> fault + ('f, 'm) SceneManager" where
  "SetShaderTexture textureTag s =
     (if m_pShaderManager s \<noteq> None then
        fbind (setIntValue g_UseTextureName 1 s)
          (\<lambda>s1. fbind (FindTextureSlot s1 textureTag)
             (\<lambda>textureID. setSampler2DValue g_TextureValueName textureID s1))
      else Inr s)"

definition SetTextureUVScale ::
  "'f \<Rightarrow> 'f \<Rightarrow> ('f, 'm) SceneManager \<Rightarrow> fault + ('f, 'm) SceneManager" where
  "SetTextureUVScale u v s =
     (if m_pShaderManager s \<noteq> None then setVec2Value ''UVscale'' (u, v) s else Inr s)"

text \<open>
  \<^verbatim>\<open>SetShaderMaterial\<close> declares its local \<^verbatim>\<open>OBJECT_MATERIAL\<close> without initialising it; the
  parameter \<open>uninitialised\<close> stands for what the local holds before \<^verbatim>\<open>FindMaterial\<close>
  runs. The five setter calls are made without testing the pointer.
\<close>

definition SetShaderMaterial ::
  "'f OBJECT_MATERIAL \<Rightarrow> string \<Rightarrow> ('f, 'm) SceneManager
     \<Rightarrow> fault + ('f, 'm) SceneManager" where
  "SetShaderMaterial uninitialised materialTag s =
     (if length (m_objectMaterials s) > 0 then
        (case FindMaterial s materialTag uninitialised of
           (bReturn, material) \<Rightarrow>
             if bReturn = True then
               fbind (setVec3Value ''material.ambientColor'' (ambientColor material) s)
                (\<lambda>s1. fbind (setFloatValue ''material.ambientStrength''
                                (ambientStrength material) s1)
                (\<lambda>s2. fbind (setVec3Value ''material.diffuseColor''
                                (diffuseColor material) s2)
                (\<lambda>s3. fbind (setVec3Value ''material.specularColor''
                                (specularColor material) s3)
                (\<lambda>s4. setFloatValue ''material.shininess'' (shininess material) s4))))
             else Inr s)
      else Inr s)"

section \<open>The glm operations over the real numbers\<close>

text \<open>
  The matrices that glm documents for \<^verbatim>\<open>glm::scale\<close>, \<^verbatim>\<open>glm::rotate\<close> (angle in radians
  about a normalised axis), \<^verbatim>\<open>glm::translate\<close>, \<^verbatim>\<open>glm::radians\<close> and the matrix product,
  computed exactly over the real numbers, without the rounding of single precision. A
  matrix is the list of its four rows.
\<close>

definition real_scale :: "real vec3 \<Rightarrow> real list list" where
  "real_scale v =
     (case v of (x, y, z) \<Rightarrow>
        [[x, 0, 0, 0], [0, y, 0, 0], [0, 0, z, 0], [0, 0, 0, 1]])"

definition real_translate :: "real vec3 \<Rightarrow> real list list" where
  "real_translate v =
     (case v of (x, y, z) \<Rightarrow>
        [[1, 0, 0, x], [0, 1, 0, y], [0, 0, 1, z], [0, 0, 0, 1]])"

definition real_rotate :: "real \<Rightarrow> real vec3 \<Rightarrow> real list list" where
  "real_rotate angle v =
     (case v of (vx, vy, vz) \<Rightarrow>
        let n = sqrt (vx * vx + vy * vy + vz * vz);
            x = vx / n; y = vy / n; z = vz / n;
            c = cos angle; s = sin angle; t = 1 - c
        in [[c + t * x * x, t * y * x - s * z, t * z * x + s * y, 0],
            [t * x * y + s * z, c + t * y * y, t * z * y - s * x, 0],
            [t * x * z - s * y, t * y * z + s * x, c + t * z * z, 0],
            [0, 0, 0, 1]])"

definition real_radians :: "real \<Rightarrow> real" where
  "real_radians degrees = degrees * pi / 180"

definition real_times :: "real list list \<Rightarrow> real list list \<Rightarrow> real list list" where
  "real_times A B =
     map (\<lambda>i. map (\<lambda>j. A ! i ! 0 * B ! 0 ! j + A ! i ! 1 * B ! 1 ! j
                          + A ! i ! 2 * B ! 2 ! j + A ! i ! 3 * B ! 3 ! j)
                [0, 1, 2, 3])
         [0, 1, 2, 3]"

text \<open>The product of a matrix with a column vector of four components.\<close>

definition real_apply :: "real list list \<Rightarrow> real list \<Rightarrow> real list" where
  "real_apply A v =
     map (\<lambda>i. A ! i ! 0 * v ! 0 + A ! i ! 1 * v ! 1 + A ! i ! 2 * v ! 2 + A ! i ! 3 * v ! 3)
         [0, 1, 2, 3]"

definition real_glm :: "(real, real list list) glm" where
  "real_glm =
     \<lparr>glm_scale = real_scale, glm_rotate = real_rotate, glm_translate = real_translate,
      glm_radians = real_radians, glm_times = real_times, glm_0f = 0, glm_1f = 1\<rparr>"

section \<open>Example scenes\<close>

definition blank_textures :: "nat \<Rightarrow> TEXTURE_INFO" where
  "blank_textures = (\<lambda>i. \<lparr>ID = 0, TEXTURE_INFO.tag = []\<rparr>)"

definition fresh_gl :: gl_context where
  "fresh_gl = \<lparr>gl_calls = [], gl_names = (\<lambda>n. of_nat n + 1), gl_generated = 0\<rparr>"

definition empty_scene :: "(real, real list list) SceneManager" where
  "empty_scene =
     \<lparr>m_pShaderManager = Some \<lparr>updates = []\<rparr>, m_textureIDs = blank_textures,
      m_loadedTextures = 0, m_objectMaterials = [], gl = fresh_gl, cout = []\<rparr>"

definition image_files :: "string \<Rightarrow> stb_image option" where
  "image_files filename =
     (if filename = ''textures/sand.jpg'' then
        Some \<lparr>width = 2, height = 2, colorChannels = 4\<rparr>
      else if filename = ''textures/pyramid.jpg'' then
        Some \<lparr>width = 4, height = 4, colorChannels = 3\<rparr>
      else if filename = ''textures/gray.png'' then
        Some \<lparr>width = 2, height = 2, colorChannels = 1\<rparr>
      else None)"

definition steelMaterial :: "real OBJECT_MATERIAL" where
  "steelMaterial =
     \<lparr>ambientColor = (0, 0, 0), ambientStrength = 0, diffuseColor = (0.5, 0.5, 0.5),
      specularColor = (0.7, 0.7, 0.7), shininess = 64, tag = ''steel''\<rparr>"

text \<open>The scene reached from the empty one by loading the sand texture.\<close>

definition sand_scene :: "(real, real list list) SceneManager" where
  "sand_scene =
     snd (projr (CreateGLTexture image_files ''textures/sand.jpg'' ''sand'' empty_scene))"

section \<open>Properties of the material table\<close>

text \<open>
  C1: \<^verbatim>\<open>FindMaterial\<close> returns false exactly when the material table is empty. For a
  non-empty table it returns true whatever the requested tag is, so the result is the
  same for a tag that is in the table and for one that is not.
\<close>

theorem FindMaterial_result_only_tells_nonempty:
  "fst (FindMaterial s t material) = (0 < length (m_objectMaterials s))"
  by (simp add: FindMaterial_def split: prod.splits)

text \<open>
  With the steel material as the only entry, the lookup of \<open>''steel''\<close> copies its
  fields and the lookup of \<open>''wood''\<close> copies nothing; the boolean is true both times.
\<close>

lemma FindMaterial_steel_and_wood:
  "FindMaterial (empty_scene\<lparr>m_objectMaterials := [steelMaterial]\<rparr>) ''steel''
     (steelMaterial\<lparr>shininess := 1, tag := []\<rparr>)
     = (True, steelMaterial\<lparr>tag := []\<rparr>)"
  "FindMaterial (empty_scene\<lparr>m_objectMaterials := [steelMaterial]\<rparr>) ''wood''
     (steelMaterial\<lparr>shininess := 1, tag := []\<rparr>)
     = (True, steelMaterial\<lparr>shininess := 1, tag := []\<rparr>)"
  by (simp_all add: FindMaterial_def FindMaterial_loop.simps steelMaterial_def)

section \<open>Properties of the texture lookups\<close>

text \<open>
  A scan that starts below the capacity and meets no matching tag returns the initial
  value of its result variable; a scan that meets the tag first at slot \<open>k\<close> returns
  slot \<open>k\<close>, or the handle stored there read as a signed number.
\<close>

lemma FindTextureSlot_loop_miss:
  "n \<le> MAX_TEXTURES \<Longrightarrow> 0 \<le> index \<Longrightarrow>
   \<forall>j. index \<le> j \<and> j < n \<longrightarrow> TEXTURE_INFO.tag (a (nat j)) \<noteq> t \<Longrightarrow>
   FindTextureSlot_loop a n t index False r = Inr r"
proof (induction "nat (n - index)" arbitrary: index)
  case 0
  then show ?case by (simp add: FindTextureSlot_loop.simps)
next
  case (Suc d)
  from Suc.hyps(2) have lt: "index < n" by simp
  have rd: "texture_read a index = Inr (a (nat index))"
    using Suc.prems lt by (simp add: texture_read_def)
  have ne: "TEXTURE_INFO.tag (a (nat index)) \<noteq> t"
    using Suc.prems lt by simp
  have "FindTextureSlot_loop a n t (index + 1) False r = Inr r"
    using Suc.hyps(2) Suc.prems by (intro Suc.hyps(1)) auto
  then show ?case
    using lt rd ne by (subst FindTextureSlot_loop.simps) simp
qed

lemma FindTextureSlot_loop_found:
  "FindTextureSlot_loop a n t index True r = Inr r"
  by (simp add: FindTextureSlot_loop.simps)

lemma FindTextureSlot_loop_hit:
  "n \<le> MAX_TEXTURES \<Longrightarrow> 0 \<le> index \<Longrightarrow> index \<le> k \<Longrightarrow> k < n \<Longrightarrow>
   TEXTURE_INFO.tag (a (nat k)) = t \<Longrightarrow>
   \<forall>j. index \<le> j \<and> j < k \<longrightarrow> TEXTURE_INFO.tag (a (nat j)) \<noteq> t \<Longrightarrow>
   FindTextureSlot_loop a n t index False r = Inr k"
proof (induction "nat (k - index)" arbitrary: index r)
  case 0
  then have eq: "index = k" by simp
  have rd: "texture_read a k = Inr (a (nat k))"
    using 0 eq by (simp add: texture_read_def)
  show ?case
    using 0 eq rd by (subst FindTextureSlot_loop.simps) (simp add: FindTextureSlot_loop_found)
next
  case (Suc d)
  from Suc.hyps(2) have lt: "index < k" by simp
  have rd: "texture_read a index = Inr (a (nat index))"
    using Suc.prems lt by (simp add: texture_read_def)
  have ne: "TEXTURE_INFO.tag (a (nat index)) \<noteq> t"
    using Suc.prems lt by simp
  have "FindTextureSlot_loop a n t (index + 1) False r = Inr k"
    using Suc.hyps(2) Suc.prems by (intro Suc.hyps(1)) auto
  then show ?case
    using lt rd ne Suc.prems by (subst FindTextureSlot_loop.simps) simp
qed


lemma FindTextureID_loop_miss:
  "n \<le> MAX_TEXTURES \<Longrightarrow> 0 \<le> index \<Longrightarrow>
   \<forall>j. index \<le> j \<and> j < n \<longrightarrow> TEXTURE_INFO.tag (a (nat j)) \<noteq> t \<Longrightarrow>
   FindTextureID_loop a n t index False r = Inr r"
proof (induction "nat (n - index)" arbitrary: index)
  case 0
  then show ?case by (simp add: FindTextureID_loop.simps)
next
  case (Suc d)
  from Suc.hyps(2) have lt: "index < n" by simp
  have rd: "texture_read a index = Inr (a (nat index))"
    using Suc.prems lt by (simp add: texture_read_def)
  have ne: "TEXTURE_INFO.tag (a (nat index)) \<noteq> t"
    using Suc.prems lt by simp
  have "FindTextureID_loop a n t (index + 1) False r = Inr r"
    using Suc.hyps(2) Suc.prems by (intro Suc.hyps(1)) auto
  then show ?case
    using lt rd ne by (subst FindTextureID_loop.simps) simp
qed

lemma FindTextureID_loop_found:
  "FindTextureID_loop a n t index True r = Inr r"
  by (simp add: FindTextureID_loop.simps)

lemma FindTextureID_loop_hit:
  "n \<le> MAX_TEXTURES \<Longrightarrow> 0 \<le> index \<Longrightarrow> index \<le> k \<Longrightarrow> k < n \<Longrightarrow>
   TEXTURE_INFO.tag (a (nat k)) = t \<Longrightarrow>
   \<forall>j. index \<le> j \<and> j < k \<longrightarrow> TEXTURE_INFO.tag (a (nat j)) \<noteq> t \<Longrightarrow>
   FindTextureID_loop a n t index False r = Inr (sint (ID (a (nat k))))"
proof (induction "nat (k - index)" arbitrary: index r)
  case 0
  then have eq: "index = k" by simp
  have rd: "texture_read a k = Inr (a (nat k))"
    using 0 eq by (simp add: texture_read_def)
  show ?case
    using 0 eq rd by (subst FindTextureID_loop.simps) (simp add: FindTextureID_loop_found)
next
  case (Suc d)
  from Suc.hyps(2) have lt: "index < k" by simp
  have rd: "texture_read a index = Inr (a (nat index))"
    using Suc.prems lt by (simp add: texture_read_def)
  have ne: "TEXTURE_INFO.tag (a (nat index)) \<noteq> t"
    using Suc.prems lt by simp
  have "FindTextureID_loop a n t (index + 1) False r = Inr (sint (ID (a (nat k))))"
    using Suc.hyps(2) Suc.prems by (intro Suc.hyps(1)) auto
  then show ?case
    using lt rd ne Suc.prems by (subst FindTextureID_loop.simps) simp
qed

lemma loaded_tags_length: "length (loaded_tags s) = nat (m_loadedTextures s)"
  by (simp add: loaded_tags_def)

lemma loaded_tags_nth:
  "k < nat (m_loadedTextures s) \<Longrightarrow> loaded_tags s ! k = TEXTURE_INFO.tag (m_textureIDs s k)"
  by (simp add: loaded_tags_def)

lemma absent_tag_entries:
  "t \<notin> set (loaded_tags s) \<Longrightarrow> 0 \<le> j \<Longrightarrow> j < m_loadedTextures s \<Longrightarrow>
   TEXTURE_INFO.tag (m_textureIDs s (nat j)) \<noteq> t"
  by (auto simp: loaded_tags_def)

lemma FindTextureSlot_absent:
  "m_loadedTextures s \<le> MAX_TEXTURES \<Longrightarrow> t \<notin> set (loaded_tags s) \<Longrightarrow>
   FindTextureSlot s t = Inr (- 1)"
  unfolding FindTextureSlot_def
  by (rule FindTextureSlot_loop_miss) (auto dest: absent_tag_entries)

lemma FindTextureID_absent:
  "m_loadedTextures s \<le> MAX_TEXTURES \<Longrightarrow> t \<notin> set (loaded_tags s) \<Longrightarrow>
   FindTextureID s t = Inr (- 1)"
  unfolding FindTextureID_def
  by (rule FindTextureID_loop_miss) (auto dest: absent_tag_entries)

lemma first_occurrence_entries:
  assumes "k < length (loaded_tags s)" "t \<notin> set (take k (loaded_tags s))"
    "0 \<le> j" "j < int k"
  shows "TEXTURE_INFO.tag (m_textureIDs s (nat j)) \<noteq> t"
proof -
  have "nat j < k" using assms by simp
  then have "take k (loaded_tags s) ! nat j = loaded_tags s ! nat j" by simp
  moreover have "nat j < length (take k (loaded_tags s))" using assms by simp
  ultimately have "loaded_tags s ! nat j \<noteq> t"
    using assms(2) by (metis nth_mem)
  moreover have "nat j < nat (m_loadedTextures s)"
    using assms by (simp add: loaded_tags_length) linarith
  ultimately show ?thesis by (simp add: loaded_tags_nth)
qed

lemma FindTextureSlot_first:
  assumes "m_loadedTextures s \<le> MAX_TEXTURES" "k < length (loaded_tags s)"
    "loaded_tags s ! k = t" "t \<notin> set (take k (loaded_tags s))"
  shows "FindTextureSlot s t = Inr (int k)"
proof -
  have k: "int k < m_loadedTextures s" using assms(2) by (simp add: loaded_tags_length)
  have tk: "TEXTURE_INFO.tag (m_textureIDs s (nat (int k))) = t"
    using assms(2,3) by (simp add: loaded_tags_length loaded_tags_nth)
  show ?thesis
    unfolding FindTextureSlot_def
    using assms(1) k tk
    by (intro FindTextureSlot_loop_hit) (auto dest: first_occurrence_entries [OF assms(2,4)])
qed

lemma FindTextureID_first:
  assumes "m_loadedTextures s \<le> MAX_TEXTURES" "k < length (loaded_tags s)"
    "loaded_tags s ! k = t" "t \<notin> set (take k (loaded_tags s))"
  shows "FindTextureID s t = Inr (sint (ID (m_textureIDs s k)))"
proof -
  have k: "int k < m_loadedTextures s" using assms(2) by (simp add: loaded_tags_length)
  have tk: "TEXTURE_INFO.tag (m_textureIDs s (nat (int k))) = t"
    using assms(2,3) by (simp add: loaded_tags_length loaded_tags_nth)
  have "FindTextureID s t = Inr (sint (ID (m_textureIDs s (nat (int k)))))"
    unfolding FindTextureID_def
    using assms(1) k tk
    by (intro FindTextureID_loop_hit) (auto dest: first_occurrence_entries [OF assms(2,4)])
  then show ?thesis by simp
qed

section \<open>Properties of texture registration\<close>

lemma TEXTURE_INFO_overwritten:
  "(e :: TEXTURE_INFO)\<lparr>ID := h, TEXTURE_INFO.tag := t\<rparr> = \<lparr>ID = h, TEXTURE_INFO.tag = t\<rparr>"
  by (cases e) simp

lemma register_texture_cases:
  "register_texture h t s =
     (if 0 \<le> m_loadedTextures s \<and> m_loadedTextures s < MAX_TEXTURES then
        Inr (True, s\<lparr>gl := gl_issue (BindTexture 0) (gl_issue GenerateMipmap (gl s)),
                     m_textureIDs := (m_textureIDs s)
                       (nat (m_loadedTextures s) := \<lparr>ID = h, TEXTURE_INFO.tag = t\<rparr>),
                     m_loadedTextures := m_loadedTextures s + 1\<rparr>)
      else Inl OutOfBounds)"
  by (simp add: register_texture_def texture_write_def fbind_def Let_def
        TEXTURE_INFO_overwritten)

lemma register_texture_true:
  assumes "register_texture h t s = Inr (True, s')"
  shows "0 \<le> m_loadedTextures s \<and> m_loadedTextures s < MAX_TEXTURES
    \<and> m_textureIDs s' = (m_textureIDs s)
          (nat (m_loadedTextures s) := \<lparr>ID = h, TEXTURE_INFO.tag = t\<rparr>)
    \<and> m_loadedTextures s' = m_loadedTextures s + 1"
  using assms by (auto simp: register_texture_cases split: if_splits)

lemma CreateGLTexture_true:
  assumes "CreateGLTexture stbi_load filename t s = Inr (True, s')"
  shows "0 \<le> m_loadedTextures s \<and> m_loadedTextures s < MAX_TEXTURES
    \<and> m_textureIDs s' = (m_textureIDs s)
          (nat (m_loadedTextures s) :=
             \<lparr>ID = gl_names (gl s) (gl_generated (gl s)), TEXTURE_INFO.tag = t\<rparr>)
    \<and> m_loadedTextures s' = m_loadedTextures s + 1"
proof (cases "stbi_load filename")
  case None
  with assms show ?thesis by (simp add: CreateGLTexture_def)
next
  case (Some img)
  with assms show ?thesis
    by (auto simp: CreateGLTexture_def Let_def glGenTextures_def
          split: if_splits dest!: register_texture_true)
qed

lemma CreateGLTexture_loads:
  assumes "stbi_load filename = Some img"
    and "colorChannels img = 3 \<or> colorChannels img = 4"
    and "0 \<le> m_loadedTextures s" and "m_loadedTextures s < MAX_TEXTURES"
  shows "\<exists>s'. CreateGLTexture stbi_load filename t s = Inr (True, s')"
  using assms
  by (auto simp: CreateGLTexture_def Let_def glGenTextures_def register_texture_cases)

lemma loaded_tags_appended:
  assumes "0 \<le> m_loadedTextures s"
    and "m_textureIDs s' = (m_textureIDs s)
          (nat (m_loadedTextures s) := \<lparr>ID = h, TEXTURE_INFO.tag = t\<rparr>)"
    and "m_loadedTextures s' = m_loadedTextures s + 1"
  shows "loaded_tags s' = loaded_tags s @ [t]"
proof -
  have n: "nat (m_loadedTextures s + 1) = Suc (nat (m_loadedTextures s))"
    using assms(1) by simp
  show ?thesis
    by (simp add: loaded_tags_def assms(2,3) n)
qed

lemma CreateGLTexture_rejects:
  assumes "stbi_load filename = Some img"
    and "colorChannels img \<noteq> 3" and "colorChannels img \<noteq> 4"
  shows "\<exists>s'. CreateGLTexture stbi_load filename t s = Inr (False, s')
           \<and> m_textureIDs s' = m_textureIDs s
           \<and> m_loadedTextures s' = m_loadedTextures s"
  using assms
  by (simp add: CreateGLTexture_def Let_def glGenTextures_def)

lemma sand_scene_table:
  "m_loadedTextures sand_scene = 1 \<and> loaded_tags sand_scene = [''sand'']
   \<and> ID (m_textureIDs sand_scene 0) = 1"
  by (simp add: sand_scene_def CreateGLTexture_def image_files_def empty_scene_def
        glGenTextures_def fresh_gl_def Let_def register_texture_cases MAX_TEXTURES_def
        loaded_tags_def blank_textures_def)

lemma register_all_tags:
  "register_all stbi_load reqs s = Some s' \<Longrightarrow> 0 \<le> m_loadedTextures s \<Longrightarrow>
   loaded_tags s' = loaded_tags s @ map snd reqs
   \<and> m_loadedTextures s' = m_loadedTextures s + int (length reqs)
   \<and> (m_loadedTextures s \<le> MAX_TEXTURES \<longrightarrow> m_loadedTextures s' \<le> MAX_TEXTURES)"
proof (induction reqs arbitrary: s)
  case Nil
  then show ?case by simp
next
  case (Cons r rest)
  obtain filename t where r: "r = (filename, t)" by (cases r)
  from Cons.prems(1) obtain s1 where
    c: "CreateGLTexture stbi_load filename t s = Inr (True, s1)"
    and rest: "register_all stbi_load rest s1 = Some s'"
    by (auto simp: r split: sum.splits bool.splits)
  note step = CreateGLTexture_true [OF c]
  have tags1: "loaded_tags s1 = loaded_tags s @ [t]"
    using step by (intro loaded_tags_appended) auto
  have n1: "0 \<le> m_loadedTextures s1" "m_loadedTextures s1 \<le> MAX_TEXTURES"
    using step by auto
  from Cons.IH [OF rest n1(1)] tags1 step n1(2) show ?case
    by (simp add: r)
qed

lemma distinct_nth_not_earlier:
  "distinct xs \<Longrightarrow> k < length xs \<Longrightarrow> xs ! k \<notin> set (take k xs)"
  by (auto simp: in_set_conv_nth nth_eq_iff_index_eq)

text \<open>
  C9: after a run of successful registrations with pairwise distinct tags, starting from
  the empty table, \<^verbatim>\<open>FindTextureSlot\<close> of the tag registered at position \<open>k\<close> (counted
  from 0) is \<open>k\<close>: slots are given out in registration order.
\<close>

theorem FindTextureSlot_registration_order:
  assumes "m_loadedTextures s = 0"
    and "register_all stbi_load reqs s = Some s'"
    and "distinct (map snd reqs)"
    and "k < length reqs"
  shows "FindTextureSlot s' (snd (reqs ! k)) = Inr (int k)"
proof -
  have start: "loaded_tags s = []"
    by (simp add: loaded_tags_def assms(1))
  have tags: "loaded_tags s' = map snd reqs" and bound: "m_loadedTextures s' \<le> MAX_TEXTURES"
    using register_all_tags [OF assms(2)] assms(1) start
    by (simp_all add: MAX_TEXTURES_def)
  show ?thesis
  proof (rule FindTextureSlot_first [OF bound])
    show "k < length (loaded_tags s')" using assms(4) by (simp add: tags)
    show "loaded_tags s' ! k = snd (reqs ! k)" using assms(4) by (simp add: tags)
    show "snd (reqs ! k) \<notin> set (take k (loaded_tags s'))"
      using distinct_nth_not_earlier [OF assms(3)] assms(4) by (simp add: tags)
  qed
qed

theorem FindTextureSlot_registration_order_witness:
  "m_loadedTextures empty_scene = 0
   \<and> register_all image_files
        [(''textures/sand.jpg'', ''sand''), (''textures/pyramid.jpg'', ''pyramid'')]
        empty_scene \<noteq> None
   \<and> distinct (map snd [(''textures/sand.jpg'', ''sand''), (''textures/pyramid.jpg'', ''pyramid'')])
   \<and> FindTextureSlot
        (the (register_all image_files
           [(''textures/sand.jpg'', ''sand''), (''textures/pyramid.jpg'', ''pyramid'')]
           empty_scene)) ''pyramid'' = Inr 1"
proof -
  let ?reqs = "[(''textures/sand.jpg'', ''sand''), (''textures/pyramid.jpg'', ''pyramid'')]"
  have e: "m_loadedTextures empty_scene = 0" by (simp add: empty_scene_def)
  have r: "\<exists>s'. register_all image_files ?reqs empty_scene = Some s'"
    by (simp add: CreateGLTexture_def image_files_def empty_scene_def glGenTextures_def
          Let_def register_texture_cases MAX_TEXTURES_def)
  then obtain s' where s': "register_all image_files ?reqs empty_scene = Some s'" ..
  have d: "distinct (map snd ?reqs)" by simp
  have "FindTextureSlot s' (snd (?reqs ! 1)) = Inr (int 1)"
    by (rule FindTextureSlot_registration_order [OF e s' d]) simp
  then show ?thesis using e s' d by simp
qed

lemma sint_minus_one_iff:
  "sint (h :: 32 word) = - 1 \<longleftrightarrow> h = - 1"
  by (metis signed_minus_1 signed_word_eqI)

lemma lookups_after_duplicate:
  assumes bound: "m_loadedTextures s' \<le> MAX_TEXTURES"
    and n: "0 \<le> m_loadedTextures s"
    and tags: "loaded_tags s' = loaded_tags s @ [t]"
    and table: "m_textureIDs s' = (m_textureIDs s)
          (nat (m_loadedTextures s) := \<lparr>ID = h, TEXTURE_INFO.tag = t\<rparr>)"
    and count: "m_loadedTextures s' = m_loadedTextures s + 1"
    and dup: "t \<in> set (loaded_tags s)"
  shows "\<exists>k<length (loaded_tags s). loaded_tags s ! k = t
           \<and> t \<notin> set (take k (loaded_tags s))
           \<and> FindTextureSlot s t = Inr (int k)
           \<and> FindTextureID s t = Inr (sint (ID (m_textureIDs s k)))
           \<and> FindTextureSlot s' t = Inr (int k)
           \<and> FindTextureID s' t = Inr (sint (ID (m_textureIDs s k)))"
proof -
  from dup obtain ys zs where split: "loaded_tags s = ys @ t # zs" "t \<notin> set ys"
    by (auto dest: split_list_first)
  let ?k = "length ys"
  have bound0: "m_loadedTextures s \<le> MAX_TEXTURES" using bound count by simp
  have k: "?k < length (loaded_tags s)" "loaded_tags s ! ?k = t"
    "t \<notin> set (take ?k (loaded_tags s))"
    using split by simp_all
  have k': "?k < length (loaded_tags s')" "loaded_tags s' ! ?k = t"
    "t \<notin> set (take ?k (loaded_tags s'))"
    using split by (simp_all add: tags)
  have "?k < nat (m_loadedTextures s)" using k(1) by (simp add: loaded_tags_length)
  then have same: "m_textureIDs s' ?k = m_textureIDs s ?k" by (simp add: table)
  have "FindTextureSlot s t = Inr (int ?k)"
    by (rule FindTextureSlot_first [OF bound0 k])
  moreover have "FindTextureID s t = Inr (sint (ID (m_textureIDs s ?k)))"
    by (rule FindTextureID_first [OF bound0 k])
  moreover have "FindTextureSlot s' t = Inr (int ?k)"
    by (rule FindTextureSlot_first [OF bound k'])
  moreover have "FindTextureID s' t = Inr (sint (ID (m_textureIDs s ?k)))"
    using FindTextureID_first [OF bound k'] by (simp add: same)
  ultimately show ?thesis using k by blast
qed

text \<open>
  C7 (amended): for an image that loads with 3 or 4 channels, while the table has a free
  slot, \<^verbatim>\<open>CreateGLTexture\<close> returns true and writes the entry with the new handle and the
  tag at slot \<^verbatim>\<open>m_loadedTextures\<close>. If no loaded entry carried the tag before, then
  afterwards \<^verbatim>\<open>FindTextureSlot\<close> of the tag is that slot and \<^verbatim>\<open>FindTextureID\<close> of the tag
  is the handle read as a signed 32-bit number, which is \<open>-1\<close> exactly when the handle
  is \<^verbatim>\<open>0xFFFFFFFF\<close>. If a loaded entry carried the tag before, both lookups give what
  they gave before the call: the slot and the handle of the earliest entry with the tag.
\<close>

theorem CreateGLTexture_registers_under_tag:
  assumes "stbi_load filename = Some img"
    and "colorChannels img = 3 \<or> colorChannels img = 4"
    and "0 \<le> m_loadedTextures s" and "m_loadedTextures s < MAX_TEXTURES"
  shows "\<exists>s'. CreateGLTexture stbi_load filename t s = Inr (True, s')
    \<and> m_loadedTextures s' = m_loadedTextures s + 1
    \<and> m_textureIDs s' = (m_textureIDs s)
          (nat (m_loadedTextures s) :=
             \<lparr>ID = gl_names (gl s) (gl_generated (gl s)), TEXTURE_INFO.tag = t\<rparr>)
    \<and> loaded_tags s' = loaded_tags s @ [t]
    \<and> (t \<notin> set (loaded_tags s) \<longrightarrow>
          FindTextureSlot s' t = Inr (m_loadedTextures s)
          \<and> FindTextureID s' t = Inr (sint (gl_names (gl s) (gl_generated (gl s))))
          \<and> (FindTextureID s' t = Inr (- 1)
               \<longleftrightarrow> gl_names (gl s) (gl_generated (gl s)) = - 1))
    \<and> (t \<in> set (loaded_tags s) \<longrightarrow>
          FindTextureSlot s' t = FindTextureSlot s t
          \<and> FindTextureID s' t = FindTextureID s t
          \<and> (\<exists>k<length (loaded_tags s). loaded_tags s ! k = t
                \<and> t \<notin> set (take k (loaded_tags s))
                \<and> FindTextureSlot s' t = Inr (int k)
                \<and> FindTextureID s' t = Inr (sint (ID (m_textureIDs s k)))))"
proof -
  let ?n = "nat (m_loadedTextures s)"
  let ?h = "gl_names (gl s) (gl_generated (gl s))"
  from CreateGLTexture_loads [where stbi_load = stbi_load and filename = filename, OF assms]
  obtain s' where
    c: "CreateGLTexture stbi_load filename t s = Inr (True, s')" ..
  note step = CreateGLTexture_true [OF c]
  have tags: "loaded_tags s' = loaded_tags s @ [t]"
    using step assms(3) by (intro loaded_tags_appended) auto
  have bound: "m_loadedTextures s' \<le> MAX_TEXTURES" using step by simp
  have len: "length (loaded_tags s) = ?n" by (rule loaded_tags_length)
  have fresh: "FindTextureSlot s' t = Inr (m_loadedTextures s)
      \<and> FindTextureID s' t = Inr (sint ?h)
      \<and> (FindTextureID s' t = Inr (- 1) \<longleftrightarrow> ?h = - 1)"
    if absent: "t \<notin> set (loaded_tags s)"
  proof -
    have k: "?n < length (loaded_tags s')" by (simp add: tags len)
    have at: "loaded_tags s' ! ?n = t" by (simp add: tags len [symmetric])
    have first: "t \<notin> set (take ?n (loaded_tags s'))"
      using absent by (simp add: tags len [symmetric])
    have slot: "FindTextureSlot s' t = Inr (m_loadedTextures s)"
      using FindTextureSlot_first [OF bound k at first] assms(3) by simp
    have "ID (m_textureIDs s' ?n) = ?h" using step by simp
    then have hid: "FindTextureID s' t = Inr (sint ?h)"
      using FindTextureID_first [OF bound k at first] by simp
    from slot hid show ?thesis by (simp add: sint_minus_one_iff)
  qed
  have dup: "FindTextureSlot s' t = FindTextureSlot s t
      \<and> FindTextureID s' t = FindTextureID s t
      \<and> (\<exists>k<length (loaded_tags s). loaded_tags s ! k = t
            \<and> t \<notin> set (take k (loaded_tags s))
            \<and> FindTextureSlot s' t = Inr (int k)
            \<and> FindTextureID s' t = Inr (sint (ID (m_textureIDs s k))))"
    if present: "t \<in> set (loaded_tags s)"
  proof -
    from step have table: "m_textureIDs s' = (m_textureIDs s)
          (nat (m_loadedTextures s) := \<lparr>ID = ?h, TEXTURE_INFO.tag = t\<rparr>)"
      and count: "m_loadedTextures s' = m_loadedTextures s + 1" by simp_all
    from lookups_after_duplicate [OF bound assms(3) tags table count present]
    show ?thesis by auto
  qed
  from c step tags fresh dup show ?thesis by blast
qed

theorem CreateGLTexture_registers_under_tag_witness:
  "image_files ''textures/sand.jpg'' = Some \<lparr>width = 2, height = 2, colorChannels = 4\<rparr>
   \<and> 0 \<le> m_loadedTextures empty_scene \<and> m_loadedTextures empty_scene < MAX_TEXTURES
   \<and> ''sand'' \<notin> set (loaded_tags empty_scene)
   \<and> fst (projr (CreateGLTexture image_files ''textures/sand.jpg'' ''sand'' empty_scene))
   \<and> FindTextureSlot sand_scene ''sand'' = Inr 0
   \<and> FindTextureID sand_scene ''sand'' = Inr 1
   \<and> image_files ''textures/pyramid.jpg'' = Some \<lparr>width = 4, height = 4, colorChannels = 3\<rparr>
   \<and> 0 \<le> m_loadedTextures sand_scene \<and> m_loadedTextures sand_scene < MAX_TEXTURES
   \<and> ''sand'' \<in> set (loaded_tags sand_scene)
   \<and> fst (projr (CreateGLTexture image_files ''textures/pyramid.jpg'' ''sand'' sand_scene))
   \<and> FindTextureSlot
        (snd (projr (CreateGLTexture image_files ''textures/pyramid.jpg'' ''sand'' sand_scene)))
        ''sand'' = Inr 0
   \<and> FindTextureID
        (snd (projr (CreateGLTexture image_files ''textures/pyramid.jpg'' ''sand'' sand_scene)))
        ''sand'' = Inr 1"
proof -
  have f: "image_files ''textures/sand.jpg'' = Some \<lparr>width = 2, height = 2, colorChannels = 4\<rparr>"
    by (simp add: image_files_def)
  have ch: "colorChannels \<lparr>width = 2, height = 2, colorChannels = 4\<rparr> = 3
      \<or> colorChannels \<lparr>width = 2, height = 2, colorChannels = 4\<rparr> = 4" by simp
  have n: "0 \<le> m_loadedTextures empty_scene" "m_loadedTextures empty_scene < MAX_TEXTURES"
    by (simp_all add: empty_scene_def MAX_TEXTURES_def)
  have fresh: "''sand'' \<notin> set (loaded_tags empty_scene)"
    by (simp add: loaded_tags_def empty_scene_def)
  have names: "gl_names (gl empty_scene) (gl_generated (gl empty_scene)) = 1"
    by (simp add: empty_scene_def fresh_gl_def)
  have zero: "m_loadedTextures empty_scene = 0" by (simp add: empty_scene_def)
  from CreateGLTexture_registers_under_tag
    [where stbi_load = image_files and filename = "''textures/sand.jpg''" and t = "''sand''",
     OF f ch n] fresh
  obtain s1 where
    c1: "CreateGLTexture image_files ''textures/sand.jpg'' ''sand'' empty_scene = Inr (True, s1)"
    and slot1: "FindTextureSlot s1 ''sand'' = Inr (m_loadedTextures empty_scene)"
    and hid1: "FindTextureID s1 ''sand''
                = Inr (sint (gl_names (gl empty_scene) (gl_generated (gl empty_scene))))"
    by blast
  have s1: "sand_scene = s1" by (simp add: sand_scene_def c1)
  have first: "fst (projr (CreateGLTexture image_files ''textures/sand.jpg'' ''sand'' empty_scene))
      \<and> FindTextureSlot sand_scene ''sand'' = Inr 0
      \<and> FindTextureID sand_scene ''sand'' = Inr 1"
    using c1 slot1 hid1 by (simp add: s1 names zero)
  have f2: "image_files ''textures/pyramid.jpg''
      = Some \<lparr>width = 4, height = 4, colorChannels = 3\<rparr>"
    by (simp add: image_files_def)
  have ch2: "colorChannels \<lparr>width = 4, height = 4, colorChannels = 3\<rparr> = 3
      \<or> colorChannels \<lparr>width = 4, height = 4, colorChannels = 3\<rparr> = 4" by simp
  have n2: "0 \<le> m_loadedTextures sand_scene" "m_loadedTextures sand_scene < MAX_TEXTURES"
    by (simp_all add: sand_scene_table MAX_TEXTURES_def)
  have dup: "''sand'' \<in> set (loaded_tags sand_scene)"
    by (simp add: sand_scene_table)
  from CreateGLTexture_registers_under_tag
    [where stbi_load = image_files and filename = "''textures/pyramid.jpg''" and t = "''sand''",
     OF f2 ch2 n2] dup
  obtain s2 k where
    c2: "CreateGLTexture image_files ''textures/pyramid.jpg'' ''sand'' sand_scene = Inr (True, s2)"
    and k: "k < length (loaded_tags sand_scene)"
    and slot2: "FindTextureSlot s2 ''sand'' = Inr (int k)"
    and hid2: "FindTextureID s2 ''sand'' = Inr (sint (ID (m_textureIDs sand_scene k)))"
    by blast
  from k have "k = 0" by (simp add: sand_scene_table)
  with c2 slot2 hid2 have second:
    "fst (projr (CreateGLTexture image_files ''textures/pyramid.jpg'' ''sand'' sand_scene))
     \<and> FindTextureSlot
        (snd (projr (CreateGLTexture image_files ''textures/pyramid.jpg'' ''sand'' sand_scene)))
        ''sand'' = Inr 0
     \<and> FindTextureID
        (snd (projr (CreateGLTexture image_files ''textures/pyramid.jpg'' ''sand'' sand_scene)))
        ''sand'' = Inr 1"
    by (simp add: sand_scene_table)
  from first second f n fresh f2 n2 dup show ?thesis by simp
qed

text \<open>
  Counterexample to C7 as stated: the sand scene already holds the tag \<open>''sand''\<close> at
  slot 0 with handle 1. Loading a three-channel image under the same tag succeeds and
  writes handle 2 at slot 1, but both lookups still give the older entry.
\<close>

theorem CreateGLTexture_duplicate_tag_counterexample:
  "fst (projr (CreateGLTexture image_files ''textures/pyramid.jpg'' ''sand'' sand_scene))
   \<and> m_textureIDs
        (snd (projr (CreateGLTexture image_files ''textures/pyramid.jpg'' ''sand'' sand_scene))) 1
      = \<lparr>ID = 2, TEXTURE_INFO.tag = ''sand''\<rparr>
   \<and> FindTextureID
        (snd (projr (CreateGLTexture image_files ''textures/pyramid.jpg'' ''sand'' sand_scene)))
        ''sand'' = Inr 1
   \<and> FindTextureSlot
        (snd (projr (CreateGLTexture image_files ''textures/pyramid.jpg'' ''sand'' sand_scene)))
        ''sand'' = Inr 0"
  by (simp add: sand_scene_def CreateGLTexture_def image_files_def empty_scene_def
        glGenTextures_def fresh_gl_def gl_issue_def Let_def register_texture_cases
        MAX_TEXTURES_def FindTextureID_def FindTextureSlot_def FindTextureID_loop.simps
        FindTextureSlot_loop.simps texture_read_def blank_textures_def)

text \<open>
  A graphics context that hands out the name \<^verbatim>\<open>0xFFFFFFFF\<close>: the load succeeds and the
  handle lookup of the tag just registered gives \<open>-1\<close>, the value it gives for a miss.
\<close>

lemma FindTextureID_of_handle_all_ones:
  "fst (projr (CreateGLTexture image_files ''textures/sand.jpg'' ''sand''
          (empty_scene\<lparr>gl := fresh_gl\<lparr>gl_names := (\<lambda>n. 0xFFFFFFFF)\<rparr>\<rparr>)))
   \<and> FindTextureID
        (snd (projr (CreateGLTexture image_files ''textures/sand.jpg'' ''sand''
          (empty_scene\<lparr>gl := fresh_gl\<lparr>gl_names := (\<lambda>n. 0xFFFFFFFF)\<rparr>\<rparr>))))
        ''sand'' = Inr (- 1)"
  by (simp add: CreateGLTexture_def image_files_def empty_scene_def
        glGenTextures_def fresh_gl_def gl_issue_def Let_def register_texture_cases
        MAX_TEXTURES_def FindTextureID_def FindTextureID_loop.simps texture_read_def)

text \<open>
  C8 (amended): for an image whose channel count is neither 3 nor 4, \<^verbatim>\<open>CreateGLTexture\<close>
  returns false and leaves the texture table and its count unchanged, so both lookups
  give for every tag what they gave before the call; they give \<open>-1\<close> for the tag of
  the call when no loaded entry carried it before (the count being within the capacity).
\<close>

theorem CreateGLTexture_unsupported_channels:
  assumes "stbi_load filename = Some img"
    and "colorChannels img \<noteq> 3" and "colorChannels img \<noteq> 4"
  shows "\<exists>s'. CreateGLTexture stbi_load filename t s = Inr (False, s')
    \<and> m_textureIDs s' = m_textureIDs s
    \<and> m_loadedTextures s' = m_loadedTextures s
    \<and> FindTextureID s' u = FindTextureID s u
    \<and> FindTextureSlot s' u = FindTextureSlot s u
    \<and> (m_loadedTextures s \<le> MAX_TEXTURES \<and> t \<notin> set (loaded_tags s) \<longrightarrow>
         FindTextureID s' t = Inr (- 1) \<and> FindTextureSlot s' t = Inr (- 1))"
proof -
  from CreateGLTexture_rejects
    [where stbi_load = stbi_load and filename = filename, OF assms]
  obtain s' where c: "CreateGLTexture stbi_load filename t s = Inr (False, s')"
    and a: "m_textureIDs s' = m_textureIDs s"
    and n: "m_loadedTextures s' = m_loadedTextures s"
    by blast
  have same: "FindTextureID s' v = FindTextureID s v"
    "FindTextureSlot s' v = FindTextureSlot s v" for v
    by (simp_all add: FindTextureID_def FindTextureSlot_def a n)
  have "FindTextureID s' t = Inr (- 1) \<and> FindTextureSlot s' t = Inr (- 1)"
    if "m_loadedTextures s \<le> MAX_TEXTURES" "t \<notin> set (loaded_tags s)"
    using that by (simp add: same FindTextureID_absent FindTextureSlot_absent)
  with c a n same show ?thesis by blast
qed

theorem CreateGLTexture_unsupported_channels_witness:
  "image_files ''textures/gray.png'' = Some \<lparr>width = 2, height = 2, colorChannels = 1\<rparr>
   \<and> m_loadedTextures sand_scene \<le> MAX_TEXTURES
   \<and> ''gray'' \<notin> set (loaded_tags sand_scene)
   \<and> \<not> fst (projr (CreateGLTexture image_files ''textures/gray.png'' ''gray'' sand_scene))
   \<and> FindTextureID
        (snd (projr (CreateGLTexture image_files ''textures/gray.png'' ''gray'' sand_scene)))
        ''gray'' = Inr (- 1)
   \<and> FindTextureSlot
        (snd (projr (CreateGLTexture image_files ''textures/gray.png'' ''gray'' sand_scene)))
        ''gray'' = Inr (- 1)"
proof -
  have f: "image_files ''textures/gray.png'' = Some \<lparr>width = 2, height = 2, colorChannels = 1\<rparr>"
    by (simp add: image_files_def)
  have ch: "colorChannels \<lparr>width = 2, height = 2, colorChannels = 1\<rparr> \<noteq> 3"
    "colorChannels \<lparr>width = 2, height = 2, colorChannels = 1\<rparr> \<noteq> 4" by simp_all
  have n: "m_loadedTextures sand_scene \<le> MAX_TEXTURES"
    by (simp add: sand_scene_table MAX_TEXTURES_def)
  have fresh: "''gray'' \<notin> set (loaded_tags sand_scene)"
    by (simp add: sand_scene_table)
  from CreateGLTexture_unsupported_channels
    [where stbi_load = image_files and filename = "''textures/gray.png''" and s = sand_scene
       and t = "''gray''" and u = "''gray''", OF f ch]
  obtain s' where
    c: "CreateGLTexture image_files ''textures/gray.png'' ''gray'' sand_scene = Inr (False, s')"
    and miss: "m_loadedTextures sand_scene \<le> MAX_TEXTURES
                 \<and> ''gray'' \<notin> set (loaded_tags sand_scene) \<longrightarrow>
               FindTextureID s' ''gray'' = Inr (- 1) \<and> FindTextureSlot s' ''gray'' = Inr (- 1)"
    by blast
  from miss n fresh show ?thesis
    using f by (simp add: c)
qed

text \<open>
  Counterexample to C8 as stated: the sand scene holds the tag \<open>''sand''\<close>. Loading a
  one-channel image under that tag fails, and the lookups for the tag still give
  handle 1 and slot 0, not \<open>-1\<close>.
\<close>

theorem CreateGLTexture_unsupported_channels_counterexample:
  "image_files ''textures/gray.png'' = Some \<lparr>width = 2, height = 2, colorChannels = 1\<rparr>
   \<and> \<not> fst (projr (CreateGLTexture image_files ''textures/gray.png'' ''sand'' sand_scene))
   \<and> FindTextureID
        (snd (projr (CreateGLTexture image_files ''textures/gray.png'' ''sand'' sand_scene)))
        ''sand'' = Inr 1
   \<and> FindTextureSlot
        (snd (projr (CreateGLTexture image_files ''textures/gray.png'' ''sand'' sand_scene)))
        ''sand'' = Inr 0"
  by (simp add: sand_scene_def CreateGLTexture_def image_files_def empty_scene_def
        glGenTextures_def fresh_gl_def gl_issue_def Let_def register_texture_cases
        MAX_TEXTURES_def FindTextureID_def FindTextureSlot_def FindTextureID_loop.simps
        FindTextureSlot_loop.simps texture_read_def blank_textures_def)

lemma register_all_same_file:
  "stbi_load filename = Some img \<Longrightarrow> colorChannels img = 3 \<or> colorChannels img = 4 \<Longrightarrow>
   0 \<le> m_loadedTextures s \<Longrightarrow> m_loadedTextures s + int n \<le> MAX_TEXTURES \<Longrightarrow>
   \<exists>s'. register_all stbi_load (replicate n (filename, t)) s = Some s'
     \<and> m_loadedTextures s' = m_loadedTextures s + int n"
proof (induction n arbitrary: s)
  case 0
  then show ?case by simp
next
  case (Suc n)
  from Suc.prems have "m_loadedTextures s < MAX_TEXTURES" by simp
  from CreateGLTexture_loads
    [where stbi_load = stbi_load and filename = filename, OF Suc.prems(1,2,3) this]
  obtain s1 where c: "CreateGLTexture stbi_load filename t s = Inr (True, s1)" ..
  note step = CreateGLTexture_true [OF c]
  have "0 \<le> m_loadedTextures s1" "m_loadedTextures s1 + int n \<le> MAX_TEXTURES"
    using step Suc.prems by simp_all
  from Suc.IH [OF Suc.prems(1,2) this] step c show ?case
    by auto
qed

text \<open>
  C4: the seventeenth load. Sixteen loads of the sand texture into the empty scene all
  return true and fill the table; the next call of \<^verbatim>\<open>CreateGLTexture\<close> with the same
  image writes \<^verbatim>\<open>m_textureIDs[16]\<close>, outside the array.
\<close>

theorem CreateGLTexture_seventeenth_load_overflows:
  "register_all image_files (replicate 16 (''textures/sand.jpg'', ''sand'')) empty_scene
     \<noteq> None
   \<and> CreateGLTexture image_files ''textures/sand.jpg'' ''sand''
       (the (register_all image_files (replicate 16 (''textures/sand.jpg'', ''sand''))
               empty_scene))
     = Inl OutOfBounds"
proof -
  have f: "image_files ''textures/sand.jpg'' = Some \<lparr>width = 2, height = 2, colorChannels = 4\<rparr>"
    by (simp add: image_files_def)
  have ch: "colorChannels \<lparr>width = 2, height = 2, colorChannels = 4\<rparr> = 3
      \<or> colorChannels \<lparr>width = 2, height = 2, colorChannels = 4\<rparr> = 4" by simp
  have "0 \<le> m_loadedTextures empty_scene"
    "m_loadedTextures empty_scene + int 16 \<le> MAX_TEXTURES"
    by (simp_all add: empty_scene_def MAX_TEXTURES_def)
  from register_all_same_file
    [where stbi_load = image_files and filename = "''textures/sand.jpg''", OF f ch this]
  obtain s' where
    run: "register_all image_files (replicate 16 (''textures/sand.jpg'', ''sand'')) empty_scene
            = Some s'"
    and full: "m_loadedTextures s' = m_loadedTextures empty_scene + int 16"
    by blast
  have "m_loadedTextures s' = MAX_TEXTURES"
    using full by (simp add: empty_scene_def MAX_TEXTURES_def)
  then have "CreateGLTexture image_files ''textures/sand.jpg'' ''sand'' s' = Inl OutOfBounds"
    by (simp add: CreateGLTexture_def f Let_def glGenTextures_def register_texture_cases)
  with run show ?thesis by simp
qed

section \<open>Properties of the teardown\<close>

lemma map_upt_shift:
  "f 0 # map (\<lambda>k. f (Suc k)) [0..<d] = map f [0..<Suc d]"
proof -
  have "map f [0..<Suc d] = f 0 # map f [Suc 0..<Suc d]"
    by (simp add: upt_rec)
  also have "map f [Suc 0..<Suc d] = map (\<lambda>k. f (Suc k)) [0..<d]"
    by (simp add: map_Suc_upt [symmetric] del: upt_Suc)
  finally show ?thesis by simp
qed

lemma DestroyGLTextures_loop_run:
  "0 \<le> i \<Longrightarrow> m_loadedTextures s \<le> MAX_TEXTURES \<Longrightarrow>
   \<exists>s'. DestroyGLTextures_loop s i = Inr s'
     \<and> gl_calls (gl s') = gl_calls (gl s) @
         map (\<lambda>k. GenTextures (gl_names (gl s) (gl_generated (gl s) + k)))
           [0..<nat (m_loadedTextures s - i)]
     \<and> (\<forall>j. m_textureIDs s' j =
           (if nat i \<le> j \<and> j < nat (m_loadedTextures s)
            then (m_textureIDs s j)\<lparr>ID := gl_names (gl s) (gl_generated (gl s) + (j - nat i))\<rparr>
            else m_textureIDs s j))"
proof (induction "nat (m_loadedTextures s - i)" arbitrary: s i)
  case 0
  then have none: "\<not> (nat i \<le> j \<and> j < nat (m_loadedTextures s))" for j by linarith
  have "DestroyGLTextures_loop s i = Inr s"
    using 0 by (simp add: DestroyGLTextures_loop.simps)
  moreover have "nat (m_loadedTextures s - i) = 0" using 0 by simp
  ultimately show ?case using none by auto
next
  case (Suc d)
  let ?name = "gl_names (gl s) (gl_generated (gl s))"
  let ?g = "(gl s)\<lparr>gl_calls := gl_calls (gl s) @ [GenTextures ?name],
                   gl_generated := Suc (gl_generated (gl s))\<rparr>"
  let ?a = "(m_textureIDs s)(nat i := (m_textureIDs s (nat i))\<lparr>ID := ?name\<rparr>)"
  let ?s1 = "s\<lparr>gl := ?g, m_textureIDs := ?a\<rparr>"
  from Suc.hyps(2) have lt: "i < m_loadedTextures s" by simp
  have gen: "glGenTextures (gl s) = (?name, ?g)"
    by (simp add: glGenTextures_def Let_def)
  have wr: "texture_write (m_textureIDs s) i (\<lambda>e. e\<lparr>ID := ?name\<rparr>) = Inr ?a"
    using Suc.prems lt by (simp add: texture_write_def)
  have unfold: "DestroyGLTextures_loop s i = DestroyGLTextures_loop ?s1 (i + 1)"
    using lt gen wr by (subst DestroyGLTextures_loop.simps) simp
  have d: "d = nat (m_loadedTextures ?s1 - (i + 1))" using Suc.hyps(2) by simp
  have "0 \<le> i + 1" "m_loadedTextures ?s1 \<le> MAX_TEXTURES" using Suc.prems by simp_all
  from Suc.hyps(1) [OF d this] obtain s' where
    run: "DestroyGLTextures_loop ?s1 (i + 1) = Inr s'"
    and calls: "gl_calls (gl s') = gl_calls (gl ?s1) @
         map (\<lambda>k. GenTextures (gl_names (gl ?s1) (gl_generated (gl ?s1) + k)))
           [0..<nat (m_loadedTextures ?s1 - (i + 1))]"
    and ids: "\<forall>j. m_textureIDs s' j =
           (if nat (i + 1) \<le> j \<and> j < nat (m_loadedTextures ?s1)
            then (m_textureIDs ?s1 j)
                   \<lparr>ID := gl_names (gl ?s1) (gl_generated (gl ?s1) + (j - nat (i + 1)))\<rparr>
            else m_textureIDs ?s1 j)"
    by blast
  have d': "nat (m_loadedTextures s - i) = Suc d" using Suc.hyps(2) by simp
  have calls': "gl_calls (gl s') = gl_calls (gl s) @
         map (\<lambda>k. GenTextures (gl_names (gl s) (gl_generated (gl s) + k)))
           [0..<nat (m_loadedTextures s - i)]"
    unfolding d'
    using calls d [symmetric]
      map_upt_shift [of "\<lambda>k. GenTextures (gl_names (gl s) (gl_generated (gl s) + k))" d]
    by simp
  have ids': "m_textureIDs s' j =
           (if nat i \<le> j \<and> j < nat (m_loadedTextures s)
            then (m_textureIDs s j)\<lparr>ID := gl_names (gl s) (gl_generated (gl s) + (j - nat i))\<rparr>
            else m_textureIDs s j)" for j
  proof -
    have i1: "nat (i + 1) = Suc (nat i)" using Suc.prems(1) by simp
    consider "j < nat i" | "j = nat i" | "Suc (nat i) \<le> j"
      by linarith
    then show ?thesis
    proof cases
      case 1
      then show ?thesis using ids by (simp add: i1)
    next
      case 2
      then show ?thesis using ids lt Suc.prems(1) by (simp add: i1)
    next
      case 3
      then have "Suc (j - Suc (nat i)) = j - nat i" by simp
      then have "gl_generated (gl s) + (j - nat i) = Suc (gl_generated (gl s) + (j - Suc (nat i)))"
        by simp
      with 3 show ?thesis using ids by (simp add: i1)
    qed
  qed
  from unfold run calls' ids' show ?case by auto
qed


text \<open>
  C2: with \<open>N\<close> loaded textures (within the capacity), \<^verbatim>\<open>DestroyGLTextures\<close> issues exactly
  \<open>N\<close> calls to the graphics context, each a texture-generate call; the handle stored at
  every loaded slot is overwritten with the freshly generated name; no texture-delete
  call is among the calls issued.
\<close>

theorem DestroyGLTextures_generates_instead_of_deleting:
  assumes "m_loadedTextures s \<le> MAX_TEXTURES"
  shows "\<exists>s'. DestroyGLTextures s = Inr s'
    \<and> gl_calls (gl s') = gl_calls (gl s) @
         map (\<lambda>k. GenTextures (gl_names (gl s) (gl_generated (gl s) + k)))
           [0..<nat (m_loadedTextures s)]
    \<and> (\<forall>i<nat (m_loadedTextures s).
          ID (m_textureIDs s' i) = gl_names (gl s) (gl_generated (gl s) + i))
    \<and> (\<forall>h. DeleteTextures h \<notin> set (drop (length (gl_calls (gl s))) (gl_calls (gl s'))))"
proof -
  from DestroyGLTextures_loop_run [of 0 s] assms obtain s' where
    run: "DestroyGLTextures_loop s 0 = Inr s'"
    and calls: "gl_calls (gl s') = gl_calls (gl s) @
         map (\<lambda>k. GenTextures (gl_names (gl s) (gl_generated (gl s) + k)))
           [0..<nat (m_loadedTextures s)]"
    and ids: "\<forall>j. m_textureIDs s' j =
           (if nat 0 \<le> j \<and> j < nat (m_loadedTextures s)
            then (m_textureIDs s j)\<lparr>ID := gl_names (gl s) (gl_generated (gl s) + (j - nat 0))\<rparr>
            else m_textureIDs s j)"
    by auto
  have "ID (m_textureIDs s' i) = gl_names (gl s) (gl_generated (gl s) + i)"
    if "i < nat (m_loadedTextures s)" for i
    using ids that by simp
  moreover have "DeleteTextures h \<notin> set (drop (length (gl_calls (gl s))) (gl_calls (gl s')))"
    for h
    by (auto simp: calls)
  ultimately show ?thesis
    using run calls by (auto simp: DestroyGLTextures_def)
qed

theorem DestroyGLTextures_generates_instead_of_deleting_witness:
  "m_loadedTextures sand_scene \<le> MAX_TEXTURES
   \<and> \<not> isl (DestroyGLTextures sand_scene)
   \<and> drop (length (gl_calls (gl sand_scene))) (gl_calls (gl (projr (DestroyGLTextures sand_scene))))
       = [GenTextures 2]
   \<and> ID (m_textureIDs (projr (DestroyGLTextures sand_scene)) 0) = 2"
proof -
  have n: "m_loadedTextures sand_scene \<le> MAX_TEXTURES"
    by (simp add: sand_scene_table MAX_TEXTURES_def)
  have g: "gl_names (gl sand_scene) = (\<lambda>n. of_nat n + 1)" "gl_generated (gl sand_scene) = 1"
    by (simp_all add: sand_scene_def CreateGLTexture_def image_files_def empty_scene_def
          glGenTextures_def fresh_gl_def gl_issue_def Let_def register_texture_cases
          MAX_TEXTURES_def)
  from DestroyGLTextures_generates_instead_of_deleting [OF n] obtain s' where
    run: "DestroyGLTextures sand_scene = Inr s'"
    and calls: "gl_calls (gl s') = gl_calls (gl sand_scene) @
         map (\<lambda>k. GenTextures (gl_names (gl sand_scene) (gl_generated (gl sand_scene) + k)))
           [0..<nat (m_loadedTextures sand_scene)]"
    and ids: "\<forall>i<nat (m_loadedTextures sand_scene).
          ID (m_textureIDs s' i)
            = gl_names (gl sand_scene) (gl_generated (gl sand_scene) + i)"
    by blast
  from ids have "ID (m_textureIDs s' 0) = 2"
    by (simp add: sand_scene_table g)
  with n run calls show ?thesis
    by (simp add: sand_scene_table g)
qed

section \<open>Properties of the uniform propagation helpers\<close>

lemma null_shader_guarded_helpers:
  assumes "m_pShaderManager s = None"
  shows "SetTransformations L scaleXYZ x y z positionXYZ s = Inr s"
    and "SetShaderColor r g b a s = Inr s"
    and "SetShaderTexture t s = Inr s"
    and "SetTextureUVScale u v s = Inr s"
  using assms
  by (simp_all add: SetTransformations_def SetShaderColor_def SetShaderTexture_def
        SetTextureUVScale_def Let_def)

lemma SetShaderMaterial_empty_table:
  "m_objectMaterials s = [] \<Longrightarrow> SetShaderMaterial uninitialised t s = Inr s"
  by (simp add: SetShaderMaterial_def)

text \<open>
  C3: with the shader pointer null and at least one material defined,
  \<^verbatim>\<open>SetShaderMaterial\<close> calls the first setter through the null pointer. (The other four
  helpers test the pointer and return the scene unchanged.)
\<close>

theorem SetShaderMaterial_null_shader_faults:
  "SetShaderMaterial uninitialised t
     (s\<lparr>m_pShaderManager := None, m_objectMaterials := m # ms\<rparr>)
   = Inl NullPointerDereference"
  by (simp add: SetShaderMaterial_def FindMaterial_def setVec3Value_def shader_update_def
        fbind_def split: prod.splits)

lemma FindTextureSlot_total:
  assumes "m_loadedTextures s \<le> MAX_TEXTURES"
  shows "\<exists>slot. FindTextureSlot s t = Inr slot"
proof (cases "t \<in> set (loaded_tags s)")
  case False
  with assms show ?thesis by (auto dest: FindTextureSlot_absent)
next
  case True
  then obtain ys zs where split: "loaded_tags s = ys @ t # zs" "t \<notin> set ys"
    by (auto dest: split_list_first)
  have "FindTextureSlot s t = Inr (int (length ys))"
    using split by (intro FindTextureSlot_first [OF assms]) simp_all
  then show ?thesis ..
qed

lemma shader_update_set:
  "m_pShaderManager s = Some sm \<Longrightarrow>
   shader_update name v s
     = Inr (s\<lparr>m_pShaderManager := Some (sm\<lparr>updates := updates sm @ [(name, v)]\<rparr>)\<rparr>)"
  by (simp add: shader_update_def)

lemma FindTextureSlot_shader_irrelevant:
  "FindTextureSlot (s\<lparr>m_pShaderManager := p\<rparr>) t = FindTextureSlot s t"
  by (simp add: FindTextureSlot_def)

lemma SetShaderColor_set:
  assumes "m_pShaderManager s = Some sm"
  shows "SetShaderColor r g b a s
    = Inr (s\<lparr>m_pShaderManager := Some (sm\<lparr>updates := updates sm @
         [(g_UseTextureName, IntValue 0), (g_ColorValueName, Vec4Value r g b a)]\<rparr>)\<rparr>)"
  using assms
  by (simp add: SetShaderColor_def setIntValue_def setVec4Value_def shader_update_def
        fbind_def)

lemma SetShaderTexture_set:
  assumes "m_pShaderManager s = Some sm" and "FindTextureSlot s t = Inr slot"
  shows "SetShaderTexture t s
    = Inr (s\<lparr>m_pShaderManager := Some (sm\<lparr>updates := updates sm @
         [(g_UseTextureName, IntValue 1), (g_TextureValueName, Sampler2DValue slot)]\<rparr>)\<rparr>)"
  using assms
  by (simp add: SetShaderTexture_def setIntValue_def setSampler2DValue_def shader_update_def
        fbind_def FindTextureSlot_shader_irrelevant)

text \<open>
  C6: with the shader interface set (and the texture count within the capacity),
  \<^verbatim>\<open>SetShaderColor\<close> leaves the uniform \<^verbatim>\<open>bUseTexture\<close> at 0 (false) and
  \<^verbatim>\<open>SetShaderTexture\<close> leaves it at 1 (true), whatever it was before; both keep the shader
  interface set and the texture count unchanged, so the value of the flag after any
  sequence of the two calls is the one written by the last call.
\<close>

theorem bUseTexture_tells_last_call:
  assumes "m_pShaderManager s = Some sm" and "m_loadedTextures s \<le> MAX_TEXTURES"
  shows "(\<exists>s' sm'. SetShaderColor r g b a s = Inr s' \<and> m_pShaderManager s' = Some sm'
            \<and> uniform_value sm' g_UseTextureName = Some (IntValue 0)
            \<and> m_loadedTextures s' = m_loadedTextures s)
       \<and> (\<exists>s' sm'. SetShaderTexture t s = Inr s' \<and> m_pShaderManager s' = Some sm'
            \<and> uniform_value sm' g_UseTextureName = Some (IntValue 1)
            \<and> m_loadedTextures s' = m_loadedTextures s)"
proof
  show "\<exists>s' sm'. SetShaderColor r g b a s = Inr s' \<and> m_pShaderManager s' = Some sm'
            \<and> uniform_value sm' g_UseTextureName = Some (IntValue 0)
            \<and> m_loadedTextures s' = m_loadedTextures s"
    by (simp add: SetShaderColor_set [OF assms(1)] uniform_value_def g_UseTextureName_def
          g_ColorValueName_def)
next
  from FindTextureSlot_total [OF assms(2)] obtain slot where
    "FindTextureSlot s t = Inr slot" ..
  then show "\<exists>s' sm'. SetShaderTexture t s = Inr s' \<and> m_pShaderManager s' = Some sm'
            \<and> uniform_value sm' g_UseTextureName = Some (IntValue 1)
            \<and> m_loadedTextures s' = m_loadedTextures s"
    by (simp add: SetShaderTexture_set [OF assms(1)] uniform_value_def g_UseTextureName_def
          g_TextureValueName_def)
qed

theorem bUseTexture_tells_last_call_witness:
  "m_pShaderManager sand_scene = Some \<lparr>updates = []\<rparr>
   \<and> m_loadedTextures sand_scene \<le> MAX_TEXTURES
   \<and> uniform_value (the (m_pShaderManager (projr (SetShaderColor 0.82 0.71 0.55 1 sand_scene))))
       g_UseTextureName = Some (IntValue 0)
   \<and> uniform_value (the (m_pShaderManager (projr (SetShaderTexture ''sand'' sand_scene))))
       g_UseTextureName = Some (IntValue 1)"
proof -
  have p: "m_pShaderManager sand_scene = Some \<lparr>updates = []\<rparr>"
    by (simp add: sand_scene_def CreateGLTexture_def image_files_def empty_scene_def
          glGenTextures_def Let_def register_texture_cases MAX_TEXTURES_def)
  have n: "m_loadedTextures sand_scene \<le> MAX_TEXTURES"
    by (simp add: sand_scene_table MAX_TEXTURES_def)
  from bUseTexture_tells_last_call [OF p n, of "0.82" "0.71" "0.55" 1 "''sand''"]
  show ?thesis using p n by auto
qed

text \<open>
  C10: with the shader interface set (and the texture count within the capacity), for a
  tag that no loaded entry carries \<^verbatim>\<open>SetShaderTexture\<close> issues exactly two uniform updates:
  \<^verbatim>\<open>bUseTexture\<close> to 1 and the sampler \<^verbatim>\<open>objectTexture\<close> to \<open>-1\<close>. It returns normally and
  changes nothing else of the scene.
\<close>

theorem SetShaderTexture_unknown_tag:
  assumes "m_pShaderManager s = Some sm" and "m_loadedTextures s \<le> MAX_TEXTURES"
    and "t \<notin> set (loaded_tags s)"
  shows "SetShaderTexture t s
    = Inr (s\<lparr>m_pShaderManager := Some (sm\<lparr>updates := updates sm @
         [(g_UseTextureName, IntValue 1), (g_TextureValueName, Sampler2DValue (- 1))]\<rparr>)\<rparr>)"
  by (rule SetShaderTexture_set [OF assms(1) FindTextureSlot_absent [OF assms(2,3)]])

theorem SetShaderTexture_unknown_tag_witness:
  "m_pShaderManager sand_scene = Some \<lparr>updates = []\<rparr>
   \<and> m_loadedTextures sand_scene \<le> MAX_TEXTURES
   \<and> ''pyramid2'' \<notin> set (loaded_tags sand_scene)
   \<and> updates (the (m_pShaderManager (projr (SetShaderTexture ''pyramid2'' sand_scene))))
       = [(''bUseTexture'', IntValue 1), (''objectTexture'', Sampler2DValue (- 1))]"
proof -
  have p: "m_pShaderManager sand_scene = Some \<lparr>updates = []\<rparr>"
    by (simp add: sand_scene_def CreateGLTexture_def image_files_def empty_scene_def
          glGenTextures_def Let_def register_texture_cases MAX_TEXTURES_def)
  have n: "m_loadedTextures sand_scene \<le> MAX_TEXTURES"
    by (simp add: sand_scene_table MAX_TEXTURES_def)
  have fresh: "''pyramid2'' \<notin> set (loaded_tags sand_scene)"
    by (simp add: sand_scene_table)
  from SetShaderTexture_unknown_tag [OF p n fresh] show ?thesis
    using p n fresh by (simp add: g_UseTextureName_def g_TextureValueName_def)
qed

section \<open>Properties of the model matrix\<close>

lemma real_radians_values: "real_radians 90 = pi / 2" "real_radians 0 = 0"
  by (simp_all add: real_radians_def)

lemma real_apply_times:
  "real_apply (real_times A B) v = real_apply A (real_apply B v)"
  by (simp add: real_apply_def real_times_def algebra_simps)

lemma code_order_quarter_turns:
  "real_times (real_times (real_times (real_times (real_translate (0, 0, 0))
     (real_rotate (real_radians 90) (0, 0, 1)))
     (real_rotate (real_radians 0) (0, 1, 0)))
     (real_rotate (real_radians 90) (1, 0, 0)))
     (real_scale (1, 1, 1))
   = [[0, 0, 1, 0], [1, 0, 0, 0], [0, 1, 0, 0], [0, 0, 0, 1]]"
  by (simp add: real_rotate_def real_radians_values Let_def real_times_def
        real_translate_def real_scale_def)

lemma swapped_order_quarter_turns:
  "real_times (real_times (real_times (real_times (real_translate (0, 0, 0))
     (real_rotate (real_radians 90) (1, 0, 0)))
     (real_rotate (real_radians 0) (0, 1, 0)))
     (real_rotate (real_radians 90) (0, 0, 1)))
     (real_scale (1, 1, 1))
   = [[0, - 1, 0, 0], [0, 0, - 1, 0], [1, 0, 0, 0], [0, 0, 0, 1]]"
  by (simp add: real_rotate_def real_radians_values Let_def real_times_def
        real_translate_def real_scale_def)

text \<open>
  C5: with the shader interface set, \<^verbatim>\<open>SetTransformations\<close> sends as \<^verbatim>\<open>model\<close> the product
  translation * rotationZ * rotationY * rotationX * scale, for every input and every
  implementation of the glm operations. Over the real numbers this product acts on a
  vector as the scale first, then the rotation about X, then about Y, then about Z, then
  the translation. The order matters: for 90 degrees about X, 0 about Y and 90 about Z
  (unit scale, no translation) the product with the rotations about X and Z exchanged
  is a different matrix.
\<close>

theorem SetTransformations_fixed_order:
  assumes "m_pShaderManager s = Some sm"
  shows "SetTransformations L scaleXYZ XrotationDegrees YrotationDegrees ZrotationDegrees
           positionXYZ s
      = Inr (s\<lparr>m_pShaderManager := Some (sm\<lparr>updates := updates sm @
          [(g_ModelName, Mat4Value
             (glm_times L (glm_times L (glm_times L (glm_times L
                (glm_translate L positionXYZ)
                (glm_rotate L (glm_radians L ZrotationDegrees) (glm_0f L, glm_0f L, glm_1f L)))
                (glm_rotate L (glm_radians L YrotationDegrees) (glm_0f L, glm_1f L, glm_0f L)))
                (glm_rotate L (glm_radians L XrotationDegrees) (glm_1f L, glm_0f L, glm_0f L)))
                (glm_scale L scaleXYZ)))]\<rparr>)\<rparr>)
    \<and> real_apply
         (real_times (real_times (real_times (real_times (real_translate p)
            (real_rotate (real_radians z) (0, 0, 1)))
            (real_rotate (real_radians y) (0, 1, 0)))
            (real_rotate (real_radians x) (1, 0, 0)))
            (real_scale sc)) v
      = real_apply (real_translate p)
          (real_apply (real_rotate (real_radians z) (0, 0, 1))
            (real_apply (real_rotate (real_radians y) (0, 1, 0))
              (real_apply (real_rotate (real_radians x) (1, 0, 0))
                (real_apply (real_scale sc) v))))
    \<and> real_times (real_times (real_times (real_times (real_translate (0, 0, 0))
         (real_rotate (real_radians 90) (0, 0, 1)))
         (real_rotate (real_radians 0) (0, 1, 0)))
         (real_rotate (real_radians 90) (1, 0, 0)))
         (real_scale (1, 1, 1))
      \<noteq> real_times (real_times (real_times (real_times (real_translate (0, 0, 0))
         (real_rotate (real_radians 90) (1, 0, 0)))
         (real_rotate (real_radians 0) (0, 1, 0)))
         (real_rotate (real_radians 90) (0, 0, 1)))
         (real_scale (1, 1, 1))"
proof (intro conjI)
  show "SetTransformations L scaleXYZ XrotationDegrees YrotationDegrees ZrotationDegrees
           positionXYZ s
      = Inr (s\<lparr>m_pShaderManager := Some (sm\<lparr>updates := updates sm @
          [(g_ModelName, Mat4Value
             (glm_times L (glm_times L (glm_times L (glm_times L
                (glm_translate L positionXYZ)
                (glm_rotate L (glm_radians L ZrotationDegrees) (glm_0f L, glm_0f L, glm_1f L)))
                (glm_rotate L (glm_radians L YrotationDegrees) (glm_0f L, glm_1f L, glm_0f L)))
                (glm_rotate L (glm_radians L XrotationDegrees) (glm_1f L, glm_0f L, glm_0f L)))
                (glm_scale L scaleXYZ)))]\<rparr>)\<rparr>)"
    using assms
    by (simp add: SetTransformations_def Let_def setMat4Value_def shader_update_def)
next
  show "real_apply
         (real_times (real_times (real_times (real_times (real_translate p)
            (real_rotate (real_radians z) (0, 0, 1)))
            (real_rotate (real_radians y) (0, 1, 0)))
            (real_rotate (real_radians x) (1, 0, 0)))
            (real_scale sc)) v
      = real_apply (real_translate p)
          (real_apply (real_rotate (real_radians z) (0, 0, 1))
            (real_apply (real_rotate (real_radians y) (0, 1, 0))
              (real_apply (real_rotate (real_radians x) (1, 0, 0))
                (real_apply (real_scale sc) v))))"
    by (simp only: real_apply_times)
next
  show "real_times (real_times (real_times (real_times (real_translate (0, 0, 0))
         (real_rotate (real_radians 90) (0, 0, 1)))
         (real_rotate (real_radians 0) (0, 1, 0)))
         (real_rotate (real_radians 90) (1, 0, 0)))
         (real_scale (1, 1, 1))
      \<noteq> real_times (real_times (real_times (real_times (real_translate (0, 0, 0))
         (real_rotate (real_radians 90) (1, 0, 0)))
         (real_rotate (real_radians 0) (0, 1, 0)))
         (real_rotate (real_radians 90) (0, 0, 1)))
         (real_scale (1, 1, 1))"
    by (simp only: code_order_quarter_turns swapped_order_quarter_turns) simp
qed

theorem SetTransformations_fixed_order_witness:
  "m_pShaderManager sand_scene = Some \<lparr>updates = []\<rparr>
   \<and> updates (the (m_pShaderManager
         (projr (SetTransformations real_glm (1, 1, 1) 90 0 90 (0, 0, 0) sand_scene))))
       = [(''model'', Mat4Value [[0, 0, 1, 0], [1, 0, 0, 0], [0, 1, 0, 0], [0, 0, 0, 1]])]"
proof -
  have p: "m_pShaderManager sand_scene = Some \<lparr>updates = []\<rparr>"
    by (simp add: sand_scene_def CreateGLTexture_def image_files_def empty_scene_def
          glGenTextures_def Let_def register_texture_cases MAX_TEXTURES_def)
  from SetTransformations_fixed_order [OF p, of real_glm "(1, 1, 1)" 90 0 90 "(0, 0, 0)"]
  have "SetTransformations real_glm (1, 1, 1) 90 0 90 (0, 0, 0) sand_scene
      = Inr (sand_scene\<lparr>m_pShaderManager := Some (\<lparr>updates =
          [(g_ModelName, Mat4Value
             (real_times (real_times (real_times (real_times (real_translate (0, 0, 0))
                (real_rotate (real_radians 90) (0, 0, 1)))
                (real_rotate (real_radians 0) (0, 1, 0)))
                (real_rotate (real_radians 90) (1, 0, 0)))
                (real_scale (1, 1, 1))))]\<rparr>)\<rparr>)"
    by (simp add: real_glm_def)
  then show ?thesis
    using p by (simp add: code_order_quarter_turns g_ModelName_def)
qed

end
